theory Spec2Isabelle
  imports Complex_Main "HOL-Library.Sublist"
begin

section \<open>Python values and strings\<close>

text \<open>
  The values a metadata mapping can hold (\<open>Dict[str, Any]\<close> in the source): the
  reference code stores strings and booleans; integers and \<open>None\<close> are kept so that a
  caller-supplied value need not be a string.
\<close>

datatype pyval = PyNone | PyBool bool | PyInt int | PyStr string

text \<open>
  \<open>str.lower()\<close>. A string is a list of characters; the letters \<open>A\<close> to \<open>Z\<close> are
  mapped to \<open>a\<close> to \<open>z\<close> and every other character is left as it is. (Python lowers
  non-ASCII letters too, but to characters that occur neither in \<open>hello\<close> nor in
  \<open>crypto\<close>, the only strings the lowered content is searched for.)
\<close>

definition ascii_lower_table :: "(char \<times> char) list" where
  "ascii_lower_table = zip ''ABCDEFGHIJKLMNOPQRSTUVWXYZ'' ''abcdefghijklmnopqrstuvwxyz''"

definition char_lower :: "char \<Rightarrow> char" where
  "char_lower c = (case map_of ascii_lower_table c of Some l \<Rightarrow> l | None \<Rightarrow> c)"

definition str_lower :: "string \<Rightarrow> string" where
  "str_lower s = map char_lower s"

text \<open>\<open>s.startswith(p)\<close>, by recursion over both strings.\<close>

fun startswith :: "string \<Rightarrow> string \<Rightarrow> bool" where
  "startswith s [] = True"
| "startswith [] (p # ps) = False"
| "startswith (c # cs) (p # ps) = (c = p \<and> startswith cs ps)"

text \<open>\<open>sub in s\<close> on strings: \<open>sub\<close> starts at some position of \<open>s\<close>.\<close>

fun str_in :: "string \<Rightarrow> string \<Rightarrow> bool" where
  "str_in sub [] = (sub = [])"
| "str_in sub (c # cs) = (startswith (c # cs) sub \<or> str_in sub cs)"

section \<open>Messages\<close>

text \<open>
  Modelled from the spec: \<open>MessageType\<close> and \<open>Message\<close> are declared in module
  \<open>common\<close>, which is not among the source files. The spec gives the tags RANDOM, HELLO,
  BALANCE, CRYPTO, TRANSFER and custom tags added by collaborators (\<open>OTHER\<close>), and the
  fields \<open>type\<close>, \<open>content\<close> (text) and \<open>metadata\<close> (an optional mapping from
  string keys to arbitrary values; \<open>None\<close> when a Message is built without it).
\<close>

datatype MessageType = RANDOM | HELLO | BALANCE | CRYPTO | TRANSFER | OTHER string

record Message =
  type :: MessageType
  content :: string
  metadata :: "(string \<rightharpoonup> pyval) option"

section \<open>Effects: the log, the calls to the client, exceptions\<close>

text \<open>
  An exception is a value. \<open>Exception c s\<close> is an instance of a class \<open>c\<close> that derives
  from Python's \<open>Exception\<close>, with \<open>s\<close> the text that \<open>str(e)\<close> gives.
  \<open>KeyboardInterrupt\<close> and the instances of the other classes that derive from
  \<open>BaseException\<close> but not from \<open>Exception\<close> (\<open>SystemExit\<close>, \<open>GeneratorExit\<close>,
  \<open>asyncio.CancelledError\<close>) are not instances of \<open>Exception\<close>: a clause
  \<open>except Exception\<close> does not catch them.
\<close>

datatype exn =
    Exception string string
  | KeyboardInterrupt
  | BaseException string string

fun is_Exception :: "exn \<Rightarrow> bool" where
  "is_Exception (Exception c s) = True"
| "is_Exception KeyboardInterrupt = False"
| "is_Exception (BaseException c s) = False"

text \<open>\<open>str(e)\<close>; a \<open>KeyboardInterrupt\<close> carries no text.\<close>

fun exn_str :: "exn \<Rightarrow> string" where
  "exn_str (Exception c s) = s"
| "exn_str KeyboardInterrupt = []"
| "exn_str (BaseException c s) = s"

record tx_params =
  tx_from :: string
  tx_gas :: int
  tx_gasPrice :: int
  tx_nonce :: int

datatype client_call =
    BalanceOf string
  | GetTransactionCount string
  | Transfer pyval int
  | GasPrice
  | BuildTransaction pyval int tx_params
  | SignTransaction string string
  | RawTransaction string
  | SendRawTransaction string

datatype event = Log_info string | Log_error string | Client client_call

text \<open>
  The outcome of a call: the value it returns or the exception it raises, and the events
  it caused, oldest first.
\<close>

type_synonym 'a outcome = "(exn + 'a) \<times> event list"

definition return :: "'a \<Rightarrow> 'a outcome" where
  "return x = (Inr x, [])"

definition raise :: "exn \<Rightarrow> 'a outcome" where
  "raise e = (Inl e, [])"

definition emit :: "event \<Rightarrow> unit outcome" where
  "emit ev = (Inr (), [ev])"

text \<open>Sequencing: the second computation runs only when the first one returned.\<close>

definition bind :: "'a outcome \<Rightarrow> ('a \<Rightarrow> 'b outcome) \<Rightarrow> 'b outcome" where
  "bind c f =
     (case c of
        (Inl e, tr) \<Rightarrow> (Inl e, tr)
      | (Inr x, tr) \<Rightarrow> (case f x of (r, tr') \<Rightarrow> (r, tr @ tr')))"

text \<open>
  \<open>try: c  except Exception as e: h e\<close>. The clause runs the handler on an instance of
  \<open>Exception\<close>; any other exception leaves the statement as it was raised.
\<close>

definition try_except :: "'a outcome \<Rightarrow> (exn \<Rightarrow> 'a outcome) \<Rightarrow> 'a outcome" where
  "try_except c h =
     (case c of
        (Inl e, tr) \<Rightarrow>
          (if is_Exception e then (case h e of (r, tr') \<Rightarrow> (r, tr @ tr'))
           else (Inl e, tr))
      | (Inr x, tr) \<Rightarrow> (Inr x, tr))"

text \<open>A call to the external client: the call is recorded, then its result is returned or
  its exception raised.\<close>

definition call :: "client_call \<Rightarrow> exn + 'a \<Rightarrow> 'a outcome" where
  "call c r = (r, [Client c])"

section \<open>HelloMessageHandler\<close>

definition HelloMessageHandler_can_handle :: "Message \<Rightarrow> bool" where
  "HelloMessageHandler_can_handle message =
     ((type message = HELLO \<or> str_in ''hello'' (str_lower (content message)))
      \<and> \<not> startswith (content message) ''Hello back!'')"

definition HelloMessageHandler_handle :: "Message \<Rightarrow> Message list outcome" where
  "HelloMessageHandler_handle message =
     bind (emit (Log_info (''Received hello message: '' @ content message))) (\<lambda>_.
     let response_content = ''Hello back! Received: '' @ content message in
     return [\<lparr>type = HELLO,
              content = response_content,
              metadata = Some [''original_message'' \<mapsto> PyStr (content message),
                               ''is_response'' \<mapsto> PyBool True]\<rparr>])"

section \<open>RandomMessageBehavior\<close>

text \<open>
  Modelled from the spec: the base class \<open>Behavior\<close> is declared in module \<open>common\<close>,
  which is not among the source files; it holds the execution interval (in seconds),
  fixed at construction.
\<close>

record Behavior =
  interval :: real

type_synonym bus_ref = nat

record RandomMessageBehavior = Behavior +
  outbox :: bus_ref

definition WORDS :: "string list" where
  "WORDS = [''hello'', ''sun'', ''world'', ''space'', ''moon'', ''crypto'',
            ''sky'', ''ocean'', ''universe'', ''human'']"

definition RandomMessageBehavior_init :: "bus_ref \<Rightarrow> RandomMessageBehavior" where
  "RandomMessageBehavior_init ob = \<lparr>interval = 2.0, outbox = ob\<rparr>"

text \<open>
  \<open>random.sample(WORDS, 2)\<close> returns the elements at two distinct positions of the
  list, in the order it drew them. The randomness is the input \<open>(i, j)\<close>, the two
  positions drawn; \<open>sample_choice\<close> says which pairs \<open>random.sample\<close> can draw.
\<close>

definition sample_choice :: "'a list \<Rightarrow> nat \<Rightarrow> nat \<Rightarrow> bool" where
  "sample_choice population i j \<longleftrightarrow> i < length population \<and> j < length population \<and> i \<noteq> j"

definition random_sample_2 :: "'a list \<Rightarrow> nat \<Rightarrow> nat \<Rightarrow> 'a list" where
  "random_sample_2 population i j = [population ! i, population ! j]"

definition RandomMessageBehavior_execute :: "nat \<Rightarrow> nat \<Rightarrow> Message list" where
  "RandomMessageBehavior_execute i j =
     (let words = random_sample_2 WORDS i j;
          content = (words ! 0) @ '' '' @ (words ! 1)
      in [\<lparr>type = RANDOM, content = content, metadata = None\<rparr>])"

section \<open>The blockchain client\<close>

text \<open>
  The client (\<open>web3\<close> and the token contract) is external: each of its operations is an
  oracle that returns a value or raises. A built transaction, a signed transaction, its
  raw bytes and a transaction hash are opaque texts; a transaction hash is represented
  by the text that \<open>tx_hash.hex()\<close> gives. \<open>from_wei_ether\<close> is
  \<open>web3.from_wei(balance, 'ether')\<close> as \<open>str\<close> renders it: the code uses the result in
  no other way.
\<close>

record Web3 =
  from_wei_ether :: "int \<Rightarrow> exn + string"
  get_transaction_count :: "string \<Rightarrow> exn + int"
  gas_price :: "exn + int"
  sign_transaction :: "string \<Rightarrow> string \<Rightarrow> exn + string"
  rawTransaction :: "string \<Rightarrow> exn + string"
  send_raw_transaction :: "string \<Rightarrow> exn + string"

record Contract =
  balanceOf :: "string \<Rightarrow> exn + int"
  transfer :: "pyval \<Rightarrow> int \<Rightarrow> exn + unit"
  build_transaction :: "pyval \<Rightarrow> int \<Rightarrow> tx_params \<Rightarrow> exn + string"

text \<open>\<open>web3.to_wei(1, 'ether')\<close>: one ether is \<open>10^18\<close> wei.\<close>

definition to_wei_1_ether :: int where
  "to_wei_1_ether = 10 ^ 18"

text \<open>\<open>str\<close> of an integer, in decimal.\<close>

fun str_nat :: "nat \<Rightarrow> string" where
  "str_nat n =
     (if n < 10 then [''0123456789'' ! n]
      else str_nat (n div 10) @ [''0123456789'' ! (n mod 10)])"

declare str_nat.simps [simp del]

definition str_int :: "int \<Rightarrow> string" where
  "str_int i = (if i < 0 then ''-'' @ str_nat (nat (- i)) else str_nat (nat i))"

section \<open>ERC20BalanceChecker\<close>

record ERC20BalanceChecker = Behavior +
  web3 :: Web3
  token_contract :: Contract
  address :: string

definition ERC20BalanceChecker_init :: "Web3 \<Rightarrow> Contract \<Rightarrow> string \<Rightarrow> ERC20BalanceChecker" where
  "ERC20BalanceChecker_init w tc a =
     \<lparr>interval = 10.0, web3 = w, token_contract = tc, address = a\<rparr>"

text \<open>The \<open>try\<close> block of \<open>execute\<close>, then \<open>execute\<close> with its \<open>except\<close> clause.\<close>

definition ERC20BalanceChecker_execute_try :: "ERC20BalanceChecker \<Rightarrow> Message list outcome" where
  "ERC20BalanceChecker_execute_try self =
     bind (call (BalanceOf (address self))
             (balanceOf (token_contract self) (address self))) (\<lambda>balance.
     bind (from_wei_ether (web3 self) balance, []) (\<lambda>balance_eth.
     bind (emit (Log_info (''Token balance for '' @ address self @ '': ''
                            @ balance_eth @ '' ETH''))) (\<lambda>_.
     return [\<lparr>type = BALANCE,
              content = balance_eth,
              metadata = Some [''address'' \<mapsto> PyStr (address self),
                               ''raw_balance'' \<mapsto> PyStr (str_int balance),
                               ''unit'' \<mapsto> PyStr ''ether'']\<rparr>])))"

definition ERC20BalanceChecker_execute :: "ERC20BalanceChecker \<Rightarrow> Message list outcome" where
  "ERC20BalanceChecker_execute self =
     try_except (ERC20BalanceChecker_execute_try self)
       (\<lambda>e. bind (emit (Log_error (''Error checking balance: '' @ exn_str e))) (\<lambda>_.
             return []))"

section \<open>CryptoTransferHandler\<close>

record CryptoTransferHandler =
  web3 :: Web3
  token_contract :: Contract
  source_address :: string
  private_key :: string

definition CryptoTransferHandler_can_handle :: "Message \<Rightarrow> bool" where
  "CryptoTransferHandler_can_handle message =
     (type message = CRYPTO \<or> str_in ''crypto'' (str_lower (content message)))"

definition default_target_address :: string where
  "default_target_address = ''0x0123456789012345678901234567890123456789''"

text \<open>
  \<open>message.metadata.get(key, default)\<close>: on a Message built without metadata the
  attribute is \<open>None\<close> and the call raises AttributeError.
\<close>

definition NoneType_has_no_get :: string where
  "NoneType_has_no_get =
     [CHR 0x27] @ ''NoneType'' @ [CHR 0x27] @ '' object has no attribute ''
     @ [CHR 0x27] @ ''get'' @ [CHR 0x27]"

definition metadata_get :: "Message \<Rightarrow> string \<Rightarrow> pyval \<Rightarrow> pyval outcome" where
  "metadata_get message key dflt =
     (case metadata message of
        None \<Rightarrow> raise (Exception ''AttributeError'' NoneType_has_no_get)
      | Some d \<Rightarrow> return (case d key of None \<Rightarrow> dflt | Some v \<Rightarrow> v))"

text \<open>The \<open>try\<close> block of \<open>handle\<close>, then \<open>handle\<close> with its \<open>except\<close> clause.\<close>

definition CryptoTransferHandler_handle_try ::
  "CryptoTransferHandler \<Rightarrow> Message \<Rightarrow> Message list outcome" where
  "CryptoTransferHandler_handle_try self message =
     bind (metadata_get message ''target_address'' (PyStr default_target_address))
       (\<lambda>target_address.
     bind (call (BalanceOf (source_address self))
             (balanceOf (CryptoTransferHandler.token_contract self) (source_address self)))
       (\<lambda>balance.
     if balance < to_wei_1_ether then
       bind (emit (Log_error ''Insufficient balance for transfer'')) (\<lambda>_. return [])
     else
     bind (call (GetTransactionCount (source_address self))
             (get_transaction_count (CryptoTransferHandler.web3 self) (source_address self)))
       (\<lambda>nonce.
     bind (call (Transfer target_address to_wei_1_ether)
             (transfer (CryptoTransferHandler.token_contract self)
                target_address to_wei_1_ether))
       (\<lambda>_.
     bind (call GasPrice (gas_price (CryptoTransferHandler.web3 self)))
       (\<lambda>gasPrice.
     let params = \<lparr>tx_from = source_address self, tx_gas = 100000,
                    tx_gasPrice = gasPrice, tx_nonce = nonce\<rparr> in
     bind (call (BuildTransaction target_address to_wei_1_ether params)
             (build_transaction (CryptoTransferHandler.token_contract self)
                target_address to_wei_1_ether params))
       (\<lambda>transfer_txn.
     bind (call (SignTransaction transfer_txn (private_key self))
             (sign_transaction (CryptoTransferHandler.web3 self)
                transfer_txn (private_key self)))
       (\<lambda>signed_txn.
     bind (call (RawTransaction signed_txn)
             (rawTransaction (CryptoTransferHandler.web3 self) signed_txn))
       (\<lambda>raw.
     bind (call (SendRawTransaction raw)
             (send_raw_transaction (CryptoTransferHandler.web3 self) raw))
       (\<lambda>tx_hash.
     bind (emit (Log_info (''Transfer initiated: '' @ tx_hash))) (\<lambda>_.
     return [\<lparr>type = TRANSFER,
              content = ''Transfer successful'',
              metadata = Some [''tx_hash'' \<mapsto> PyStr tx_hash,
                               ''source_address'' \<mapsto> PyStr (source_address self),
                               ''target_address'' \<mapsto> target_address]\<rparr>]))))))))))"

definition CryptoTransferHandler_handle ::
  "CryptoTransferHandler \<Rightarrow> Message \<Rightarrow> Message list outcome" where
  "CryptoTransferHandler_handle self message =
     try_except (CryptoTransferHandler_handle_try self message)
       (\<lambda>e. bind (emit (Log_error (''Error handling transfer: '' @ exn_str e))) (\<lambda>_.
             return []))"

section \<open>Derived notions\<close>

text \<open>The Messages a call returned: none when it raised.\<close>

definition returned :: "Message list outcome \<Rightarrow> Message list" where
  "returned c = (case fst c of Inl e \<Rightarrow> [] | Inr ms \<Rightarrow> ms)"

text \<open>
  The Hello predicate in the words of its description: the type is HELLO or the lowered
  content has \<open>hello\<close> as a substring, and the content does not begin with
  \<open>Hello back!\<close>.
\<close>

definition hello_predicate_spec :: "Message \<Rightarrow> bool" where
  "hello_predicate_spec m \<longleftrightarrow>
     (type m = HELLO \<or> (\<exists>a b. str_lower (content m) = a @ ''hello'' @ b))
     \<and> \<not> (\<exists>rest. content m = ''Hello back!'' @ rest)"

text \<open>
  A client that raises instances of \<open>Exception\<close> only: whenever one of its operations
  raises, the exception is an instance of \<open>Exception\<close>.
\<close>

definition web3_raises_Exception_only :: "Web3 \<Rightarrow> bool" where
  "web3_raises_Exception_only w \<longleftrightarrow>
     (\<forall>b e. from_wei_ether w b = Inl e \<longrightarrow> is_Exception e)
     \<and> (\<forall>a e. get_transaction_count w a = Inl e \<longrightarrow> is_Exception e)
     \<and> (\<forall>e. gas_price w = Inl e \<longrightarrow> is_Exception e)
     \<and> (\<forall>t k e. sign_transaction w t k = Inl e \<longrightarrow> is_Exception e)
     \<and> (\<forall>t e. rawTransaction w t = Inl e \<longrightarrow> is_Exception e)
     \<and> (\<forall>r e. send_raw_transaction w r = Inl e \<longrightarrow> is_Exception e)"

definition contract_raises_Exception_only :: "Contract \<Rightarrow> bool" where
  "contract_raises_Exception_only tc \<longleftrightarrow>
     (\<forall>a e. balanceOf tc a = Inl e \<longrightarrow> is_Exception e)
     \<and> (\<forall>t n e. transfer tc t n = Inl e \<longrightarrow> is_Exception e)
     \<and> (\<forall>t n p e. build_transaction tc t n p = Inl e \<longrightarrow> is_Exception e)"

text \<open>The calls of the transfer path: all that \<open>handle\<close> asks of the client after the
  balance check.\<close>

fun transfer_path :: "event \<Rightarrow> bool" where
  "transfer_path (Client (GetTransactionCount a)) = True"
| "transfer_path (Client (Transfer t n)) = True"
| "transfer_path (Client GasPrice) = True"
| "transfer_path (Client (BuildTransaction t n p)) = True"
| "transfer_path (Client (SignTransaction t k)) = True"
| "transfer_path (Client (RawTransaction t)) = True"
| "transfer_path (Client (SendRawTransaction t)) = True"
| "transfer_path ev = False"

section \<open>MessageBus\<close>

text \<open>
  Modelled from the spec: \<open>MessageBus\<close> is declared in module \<open>common\<close>, which is not
  among the source files. The spec describes an unbounded FIFO queue: \<open>put\<close> enqueues,
  never blocks and never fails; \<open>get\<close> removes and returns the oldest pending Message
  and suspends the caller while there is none. The bus is the list of its pending
  Messages, oldest first; \<open>get\<close> gives \<open>None\<close> while the caller stays suspended.
\<close>

type_synonym 'a MessageBus = "'a list"

text \<open>Modelled from the spec: \<open>MessageBus.put\<close> (module \<open>common\<close>) enqueues the Message
  behind the pending ones; it never blocks and never fails.\<close>

definition put :: "'a \<Rightarrow> 'a MessageBus \<Rightarrow> 'a MessageBus" where
  "put message bus = bus @ [message]"

text \<open>Modelled from the spec: \<open>MessageBus.get\<close> (module \<open>common\<close>) removes and returns
  the oldest pending Message; on an empty bus the caller is suspended (\<open>None\<close>) and the
  bus is unchanged.\<close>

definition get :: "'a MessageBus \<Rightarrow> ('a \<times> 'a MessageBus) option" where
  "get bus = (case bus of [] \<Rightarrow> None | message # rest \<Rightarrow> Some (message, rest))"

text \<open>
  A schedule is the order in which the operations of the concurrent tasks take effect on
  one bus: a \<open>put\<close> by some producer (named by a number) or a \<open>get\<close> by the consumer.
  Every Message on the bus carries the name of its producer, so that the Messages of one
  producer can be told from the others'. \<open>run_bus\<close> gives the Messages the consumer
  received, in order, and the bus that is left.
\<close>

datatype 'a bus_op = Put nat 'a | Get

fun run_bus :: "(nat \<times> 'a) MessageBus \<Rightarrow> 'a bus_op list
                  \<Rightarrow> (nat \<times> 'a) list \<times> (nat \<times> 'a) MessageBus" where
  "run_bus bus [] = ([], bus)"
| "run_bus bus (Put p message # ops) = run_bus (put (p, message) bus) ops"
| "run_bus bus (Get # ops) =
     (case get bus of
        None \<Rightarrow> run_bus bus ops
      | Some (x, bus') \<Rightarrow> (case run_bus bus' ops of (out, rest) \<Rightarrow> (x # out, rest)))"

fun puts_of :: "'a bus_op list \<Rightarrow> (nat \<times> 'a) list" where
  "puts_of [] = []"
| "puts_of (Put p message # ops) = (p, message) # puts_of ops"
| "puts_of (Get # ops) = puts_of ops"

definition from_producer :: "nat \<Rightarrow> (nat \<times> 'a) list \<Rightarrow> 'a list" where
  "from_producer p xs = map snd (filter (\<lambda>x. fst x = p) xs)"

section \<open>Agents and the composition of \<open>main\<close>\<close>

text \<open>
  Modelled from the spec: the class \<open>Agent\<close> is declared in module \<open>common\<close>, which is
  not among the source files. An Agent has a name, an inbox and an outbox (MessageBus
  objects of its own, created with it; the outbox may be reassigned), and the ordered
  collections of its registered behaviors and handlers. A bus is an object with an
  identity: it is named by a reference, and a new bus takes the next unused one.
\<close>

datatype behavior_obj =
    RandomMessageBehavior_obj RandomMessageBehavior
  | ERC20BalanceChecker_obj ERC20BalanceChecker

datatype handler_obj =
    HelloMessageHandler_obj
  | CryptoTransferHandler_obj CryptoTransferHandler

record Agent =
  name :: string
  inbox :: bus_ref
  outbox :: bus_ref
  behaviors :: "behavior_obj list"
  handlers :: "handler_obj list"

text \<open>Modelled from the spec: the constructor of \<open>Agent\<close> (module \<open>common\<close>) creates
  the inbox and the outbox, two new buses, and no behaviors or handlers; \<open>r\<close> is the next
  unused reference.\<close>

definition Agent_init :: "string \<Rightarrow> bus_ref \<Rightarrow> Agent \<times> bus_ref" where
  "Agent_init n r =
     (\<lparr>name = n, inbox = r, outbox = r + 1, behaviors = [], handlers = []\<rparr>, r + 2)"

text \<open>Modelled from the spec: \<open>Agent.register_behavior\<close> and \<open>Agent.register_handler\<close>
  (module \<open>common\<close>) add to the ordered collections.\<close>

definition register_behavior :: "behavior_obj \<Rightarrow> Agent \<Rightarrow> Agent" where
  "register_behavior b agent = agent\<lparr>behaviors := behaviors agent @ [b]\<rparr>"

definition register_handler :: "handler_obj \<Rightarrow> Agent \<Rightarrow> Agent" where
  "register_handler h agent = agent\<lparr>handlers := handlers agent @ [h]\<rparr>"

text \<open>
  What \<open>main\<close> takes from outside: the environment variables, the results of connecting
  to the node, of loading the ABI and of creating the contract, and how the wait for the
  two running agents ends (\<open>None\<close>: it returns).
\<close>

record main_env =
  ETHEREUM_ADDRESS :: string
  PRIVATE_KEY :: string
  setup_web3_result :: "exn + Web3"
  token_abi_result :: "exn + unit"
  contract_result :: "exn + Contract"
  gather_result :: "exn option"

definition setup_agent ::
  "main_env \<Rightarrow> string \<Rightarrow> Web3 \<Rightarrow> Contract \<Rightarrow> bus_ref \<Rightarrow> Agent \<times> bus_ref" where
  "setup_agent env n w tc r =
     (case Agent_init n r of (agent, r') \<Rightarrow>
        (register_handler
           (CryptoTransferHandler_obj
              \<lparr>web3 = w, token_contract = tc,
               source_address = ETHEREUM_ADDRESS env, private_key = PRIVATE_KEY env\<rparr>)
        (register_handler HelloMessageHandler_obj
        (register_behavior
           (ERC20BalanceChecker_obj (ERC20BalanceChecker_init w tc (ETHEREUM_ADDRESS env)))
        (register_behavior
           (RandomMessageBehavior_obj (RandomMessageBehavior_init (Agent.outbox agent)))
         agent))), r'))"

text \<open>
  The state of \<open>main\<close>: its local variables \<open>agent1\<close> and \<open>agent2\<close> (\<open>None\<close> while
  unassigned, which is what \<open>'agent1' in locals()\<close> asks), what it has done to the
  agents so far, oldest first, and the exception that left \<open>main\<close> uncaught, if any.
\<close>

datatype main_event =
    Constructed string
  | Outbox_assigned string bus_ref
  | Run_invoked string
  | Stop_invoked string
  | Printed string

record main_state =
  agent1 :: "Agent option"
  agent2 :: "Agent option"
  events :: "main_event list"
  propagated :: "exn option"

definition did :: "main_event \<Rightarrow> main_state \<Rightarrow> main_state" where
  "did ev s = s\<lparr>events := events s @ [ev]\<rparr>"

text \<open>The \<open>try\<close> block of \<open>main\<close>: the exception that ended it, if any, and the state.\<close>

definition main_try :: "main_env \<Rightarrow> main_state \<Rightarrow> exn option \<times> main_state" where
  "main_try env s =
     (case setup_web3_result env of Inl e \<Rightarrow> (Some e, s) | Inr w \<Rightarrow>
      case token_abi_result env of Inl e \<Rightarrow> (Some e, s) | Inr abi \<Rightarrow>
      case contract_result env of Inl e \<Rightarrow> (Some e, s) | Inr tc \<Rightarrow>
      case setup_agent env ''Agent1'' w tc 0 of (a1, r1) \<Rightarrow>
      let s = did (Constructed (name a1)) (s\<lparr>agent1 := Some a1\<rparr>) in
      case setup_agent env ''Agent2'' w tc r1 of (a2, r2) \<Rightarrow>
      let s = did (Constructed (name a2)) (s\<lparr>agent2 := Some a2\<rparr>);
          a1 = a1\<lparr>outbox := inbox a2\<rparr>;
          s = did (Outbox_assigned (name a1) (inbox a2)) (s\<lparr>agent1 := Some a1\<rparr>);
          a2 = a2\<lparr>outbox := inbox a1\<rparr>;
          s = did (Outbox_assigned (name a2) (inbox a1)) (s\<lparr>agent2 := Some a2\<rparr>);
          s = did (Run_invoked (name a1)) s;
          s = did (Run_invoked (name a2)) s
      in (gather_result env, s))"

text \<open>\<open>if 'agent1' in locals(): agent1.stop()\<close>, then the same for \<open>agent2\<close>.\<close>

definition stop_agents :: "main_state \<Rightarrow> main_state" where
  "stop_agents s =
     (let s = (case agent1 s of None \<Rightarrow> s | Some a \<Rightarrow> did (Stop_invoked (name a)) s)
      in (case agent2 s of None \<Rightarrow> s | Some a \<Rightarrow> did (Stop_invoked (name a)) s))"

text \<open>
  \<open>main\<close>: the \<open>try\<close> block, then the clause \<open>except KeyboardInterrupt\<close>, then the
  clause \<open>except Exception as e\<close>; an exception that neither clause catches leaves
  \<open>main\<close>.
\<close>

definition main :: "main_env \<Rightarrow> main_state" where
  "main env =
     (case main_try env \<lparr>agent1 = None, agent2 = None, events = [], propagated = None\<rparr> of
        (None, s) \<Rightarrow> s
      | (Some KeyboardInterrupt, s) \<Rightarrow>
          stop_agents (did (Printed (CHR 0x0A # ''Shutting down agents...'')) s)
      | (Some (Exception c m), s) \<Rightarrow>
          stop_agents (did (Printed (''An error occurred: '' @ exn_str (Exception c m))) s)
      | (Some (BaseException c m), s) \<Rightarrow>
          s\<lparr>propagated := Some (BaseException c m)\<rparr>)"

text \<open>
  The part of \<open>main\<close> before the agents are created: connecting to the node, loading the
  ABI and creating the contract, each of which may raise.
\<close>

definition main_setup :: "main_env \<Rightarrow> exn + (Web3 \<times> Contract)" where
  "main_setup env =
     (case setup_web3_result env of Inl e \<Rightarrow> Inl e | Inr w \<Rightarrow>
      case token_abi_result env of Inl e \<Rightarrow> Inl e | Inr abi \<Rightarrow>
      case contract_result env of Inl e \<Rightarrow> Inl e | Inr tc \<Rightarrow> Inr (w, tc))"

text \<open>The events that wire or start an agent.\<close>

fun wires_or_runs :: "main_event \<Rightarrow> bool" where
  "wires_or_runs (Outbox_assigned a b) = True"
| "wires_or_runs (Run_invoked a) = True"
| "wires_or_runs (Constructed a) = True"
| "wires_or_runs ev = False"

section \<open>Concrete clients\<close>

text \<open>
  Four clients on which the code is evaluated: one whose every call succeeds and whose
  token balance is two ether, one whose balance is five wei, one whose node cannot be
  reached, so that the balance query raises, and one whose balance query is interrupted
  from the keyboard.
\<close>

definition ok_web3 :: Web3 where
  "ok_web3 =
     \<lparr>from_wei_ether = (\<lambda>b. Inr (str_int (b div 10 ^ 18))),
      get_transaction_count = (\<lambda>a. Inr 7),
      gas_price = Inr 1000000000,
      sign_transaction = (\<lambda>t k. Inr (''signed:'' @ t)),
      rawTransaction = (\<lambda>s. Inr (''raw:'' @ s)),
      send_raw_transaction = (\<lambda>r. Inr ''0xabc'')\<rparr>"

definition ok_contract :: Contract where
  "ok_contract =
     \<lparr>balanceOf = (\<lambda>a. Inr (2 * 10 ^ 18)),
      transfer = (\<lambda>t n. Inr ()),
      build_transaction = (\<lambda>t n p. Inr ''txn'')\<rparr>"

definition poor_contract :: Contract where
  "poor_contract = ok_contract\<lparr>balanceOf := (\<lambda>a. Inr 5)\<rparr>"

definition down_contract :: Contract where
  "down_contract =
     ok_contract\<lparr>balanceOf := (\<lambda>a. Inl (Exception ''ConnectionError'' ''node unreachable''))\<rparr>"

definition interrupted_contract :: Contract where
  "interrupted_contract = ok_contract\<lparr>balanceOf := (\<lambda>a. Inl KeyboardInterrupt)\<rparr>"

definition ok_handler :: CryptoTransferHandler where
  "ok_handler =
     \<lparr>web3 = ok_web3, token_contract = ok_contract,
      source_address = ''0xS'', private_key = ''key''\<rparr>"

definition crypto_message :: Message where
  "crypto_message = \<lparr>type = CRYPTO, content = ''send'', metadata = Some Map.empty\<rparr>"

text \<open>An environment in which the set-up succeeds and the run is interrupted from the
  keyboard.\<close>

definition ok_env :: main_env where
  "ok_env =
     \<lparr>ETHEREUM_ADDRESS = ''0xS'', PRIVATE_KEY = ''key'',
      setup_web3_result = Inr ok_web3, token_abi_result = Inr (),
      contract_result = Inr ok_contract,
      gather_result = Some KeyboardInterrupt\<rparr>"

section \<open>Properties\<close>

subsection \<open>Strings\<close>

lemma startswith_iff: "startswith s p \<longleftrightarrow> (\<exists>r. s = p @ r)"
  by (induction s p rule: startswith.induct) auto

lemma str_in_iff: "str_in sub s \<longleftrightarrow> (\<exists>a b. s = a @ sub @ b)"
proof (induction s)
  case Nil
  then show ?case by auto
next
  case (Cons c cs)
  show ?case
  proof
    assume "str_in sub (c # cs)"
    then consider "startswith (c # cs) sub" | "str_in sub cs" by auto
    then show "\<exists>a b. c # cs = a @ sub @ b"
    proof cases
      case 1
      then obtain r where "c # cs = sub @ r" by (auto simp: startswith_iff)
      then have "c # cs = [] @ sub @ r" by simp
      then show ?thesis by blast
    next
      case 2
      with Cons obtain a b where "cs = a @ sub @ b" by auto
      then have "c # cs = (c # a) @ sub @ b" by simp
      then show ?thesis by blast
    qed
  next
    assume "\<exists>a b. c # cs = a @ sub @ b"
    then obtain a b where ab: "c # cs = a @ sub @ b" by blast
    show "str_in sub (c # cs)"
    proof (cases a)
      case Nil
      with ab have "startswith (c # cs) sub" by (auto simp: startswith_iff)
      then show ?thesis by simp
    next
      case (Cons x a')
      with ab have "cs = a' @ sub @ b" by simp
      with Cons.IH have "str_in sub cs" by blast
      then show ?thesis by simp
    qed
  qed
qed

lemma startswith_append: "startswith (p @ r) p"
  by (simp add: startswith_iff)

lemma str_in_sublist: "str_in sub s \<longleftrightarrow> sublist sub s"
  by (simp add: str_in_iff sublist_def)

lemma lowered_substring:
  "str_in sub (str_lower c) \<longleftrightarrow> (\<exists>x. str_lower x = sub \<and> str_in x c)"
proof
  assume "str_in sub (str_lower c)"
  then obtain a b where "map char_lower c = a @ sub @ b"
    by (auto simp: str_in_iff str_lower_def)
  then have "\<exists>a' r. c = a' @ r \<and> a = map char_lower a' \<and> sub @ b = map char_lower r"
    by (simp only: map_eq_append_conv)
  then obtain a' r where r: "c = a' @ r" "map char_lower r = sub @ b"
    by metis
  from r(2) have "\<exists>x b'. r = x @ b' \<and> sub = map char_lower x \<and> b = map char_lower b'"
    by (simp only: map_eq_append_conv)
  then obtain x b' where "r = x @ b'" "map char_lower x = sub"
    by metis
  with r have "c = a' @ x @ b'" "map char_lower x = sub" by simp_all
  then show "\<exists>x. str_lower x = sub \<and> str_in x c"
    by (auto simp: str_in_iff str_lower_def)
next
  assume "\<exists>x. str_lower x = sub \<and> str_in x c"
  then obtain x a b where "str_lower x = sub" "c = a @ x @ b"
    by (auto simp: str_in_iff)
  then have "str_lower c = str_lower a @ sub @ str_lower b"
    by (auto simp: str_lower_def)
  then show "str_in sub (str_lower c)"
    unfolding str_in_iff by blast
qed

subsection \<open>Outcomes\<close>

lemma fst_bind: "fst (bind c f) = (case fst c of Inl e \<Rightarrow> Inl e | Inr x \<Rightarrow> fst (f x))"
  by (simp add: bind_def split: prod.splits sum.splits)

lemma snd_bind: "snd (bind c f) = snd c @ (case fst c of Inl e \<Rightarrow> [] | Inr x \<Rightarrow> snd (f x))"
  by (simp add: bind_def split: prod.splits sum.splits)

lemma fst_try_except:
  "fst (try_except c h) =
     (case fst c of
        Inl e \<Rightarrow> if is_Exception e then fst (h e) else Inl e
      | Inr x \<Rightarrow> Inr x)"
  by (simp add: try_except_def split: prod.splits sum.splits)

lemma snd_try_except:
  "snd (try_except c h) =
     snd c @ (case fst c of
                Inl e \<Rightarrow> if is_Exception e then snd (h e) else []
              | Inr x \<Rightarrow> [])"
  by (simp add: try_except_def split: prod.splits sum.splits)

lemma fst_snd_basic [simp]:
  "fst (return x) = Inr x" "snd (return x) = []"
  "fst (raise e) = Inl e" "snd (raise e) = []"
  "fst (emit ev) = Inr ()" "snd (emit ev) = [ev]"
  "fst (call cl r) = r" "snd (call cl r) = [Client cl]"
  by (simp_all add: return_def raise_def emit_def call_def)

lemma try_except_returns:
  assumes "\<And>e. fst c = Inl e \<Longrightarrow> is_Exception e"
    and "\<And>e. \<exists>x. fst (h e) = Inr x"
  shows "\<exists>x. fst (try_except c h) = Inr x"
  using assms by (cases "fst c") (auto simp: fst_try_except)

lemma try_except_raised:
  "fst c = Inl e \<Longrightarrow> is_Exception e \<Longrightarrow> try_except c h = (fst (h e), snd c @ snd (h e))"
  by (cases c) (simp add: try_except_def split: prod.splits)

lemma try_except_propagates:
  "fst c = Inl e \<Longrightarrow> \<not> is_Exception e \<Longrightarrow> try_except c h = c"
  by (cases c) (simp add: try_except_def)

subsection \<open>What the handlers return\<close>

lemma hello_response:
  "returned (HelloMessageHandler_handle m) =
     [\<lparr>type = HELLO, content = ''Hello back! Received: '' @ content m,
       metadata = Some [''original_message'' \<mapsto> PyStr (content m),
                        ''is_response'' \<mapsto> PyBool True]\<rparr>]"
  by (simp add: returned_def HelloMessageHandler_handle_def fst_bind)

lemma transfer_response:
  "returned (CryptoTransferHandler_handle self m) = [] \<or>
   (\<exists>h t. returned (CryptoTransferHandler_handle self m) =
      [\<lparr>type = TRANSFER, content = ''Transfer successful'',
        metadata = Some [''tx_hash'' \<mapsto> PyStr h,
                         ''source_address'' \<mapsto> PyStr (source_address self),
                         ''target_address'' \<mapsto> t]\<rparr>])"
  by (auto simp add: returned_def CryptoTransferHandler_handle_def CryptoTransferHandler_handle_try_def
      fst_bind fst_try_except Let_def split: sum.splits)

lemma hello_can_handle_spec: "HelloMessageHandler_can_handle m \<longleftrightarrow> hello_predicate_spec m"
  by (simp add: HelloMessageHandler_can_handle_def hello_predicate_spec_def
      startswith_iff str_in_iff)

lemma ok_handler_simps [simp]:
  "CryptoTransferHandler.web3 ok_handler = ok_web3"
  "CryptoTransferHandler.token_contract ok_handler = ok_contract"
  "source_address ok_handler = ''0xS''"
  "private_key ok_handler = ''key''"
  by (simp_all add: ok_handler_def)

lemma ok_handler_run:
  "CryptoTransferHandler_handle ok_handler crypto_message =
     (Inr [\<lparr>type = TRANSFER, content = ''Transfer successful'',
            metadata = Some [''tx_hash'' \<mapsto> PyStr ''0xabc'',
                             ''source_address'' \<mapsto> PyStr ''0xS'',
                             ''target_address'' \<mapsto> PyStr default_target_address]\<rparr>],
      [Client (BalanceOf ''0xS''),
       Client (GetTransactionCount ''0xS''),
       Client (Transfer (PyStr default_target_address) (10 ^ 18)),
       Client GasPrice,
       Client (BuildTransaction (PyStr default_target_address) (10 ^ 18)
                 \<lparr>tx_from = ''0xS'', tx_gas = 100000, tx_gasPrice = 1000000000, tx_nonce = 7\<rparr>),
       Client (SignTransaction ''txn'' ''key''),
       Client (RawTransaction ''signed:txn''),
       Client (SendRawTransaction ''raw:signed:txn''),
       Log_info ''Transfer initiated: 0xabc''])"
  by (simp add: CryptoTransferHandler_handle_def CryptoTransferHandler_handle_try_def
      metadata_get_def try_except_def bind_def call_def emit_def return_def
      crypto_message_def ok_web3_def ok_contract_def to_wei_1_ether_def)

subsection \<open>The Hello scenario\<close>

text \<open>
  C1. For the Message of type HELLO with content \<open>hello world\<close> (whatever its
  metadata), \<open>can_handle\<close> is true and \<open>handle\<close> returns exactly one Message: its
  content is \<open>Hello back! Received: hello world\<close> and its metadata maps
  \<open>original_message\<close> to \<open>hello world\<close>.
\<close>

theorem C1_hello_world:
  "HelloMessageHandler_can_handle \<lparr>type = HELLO, content = ''hello world'', metadata = md\<rparr>
   \<and> (\<exists>r d. fst (HelloMessageHandler_handle
                    \<lparr>type = HELLO, content = ''hello world'', metadata = md\<rparr>) = Inr [r]
        \<and> content r = ''Hello back! Received: hello world''
        \<and> metadata r = Some d
        \<and> d ''original_message'' = Some (PyStr ''hello world''))"
  by (simp add: HelloMessageHandler_can_handle_def HelloMessageHandler_handle_def
      bind_def emit_def return_def)

subsection \<open>No self-loop\<close>

text \<open>
  C2. No self-loop: every Message that \<open>HelloMessageHandler.handle\<close> returns begins
  with \<open>Hello back!\<close> and is refused by \<open>HelloMessageHandler.can_handle\<close>; every
  Message that \<open>CryptoTransferHandler.handle\<close> returns, whatever the client does, has
  type TRANSFER and content \<open>Transfer successful\<close> and is refused by
  \<open>CryptoTransferHandler.can_handle\<close>.
\<close>

theorem C2_no_self_loop:
  "(\<forall>r \<in> set (returned (HelloMessageHandler_handle m)).
      startswith (content r) ''Hello back!'' \<and> \<not> HelloMessageHandler_can_handle r)
   \<and> (\<forall>r \<in> set (returned (CryptoTransferHandler_handle self m)).
      type r = TRANSFER \<and> content r = ''Transfer successful''
      \<and> \<not> CryptoTransferHandler_can_handle r)"
proof -
  have hello: "\<forall>r \<in> set (returned (HelloMessageHandler_handle m)).
      startswith (content r) ''Hello back!'' \<and> \<not> HelloMessageHandler_can_handle r"
    by (simp add: hello_response HelloMessageHandler_can_handle_def)
  have low: "\<not> str_in ''crypto'' (str_lower ''Transfer successful'')"
    by (simp add: str_lower_def char_lower_def ascii_lower_table_def)
  have crypto: "\<forall>r \<in> set (returned (CryptoTransferHandler_handle self m)).
      type r = TRANSFER \<and> content r = ''Transfer successful''
      \<and> \<not> CryptoTransferHandler_can_handle r"
    using transfer_response [of self m] low
    by (auto simp: CryptoTransferHandler_can_handle_def)
  from hello crypto show ?thesis by blast
qed

theorem C2_no_self_loop_witness:
  "returned (HelloMessageHandler_handle crypto_message) =
     [\<lparr>type = HELLO, content = ''Hello back! Received: send'',
       metadata = Some [''original_message'' \<mapsto> PyStr ''send'',
                        ''is_response'' \<mapsto> PyBool True]\<rparr>]
   \<and> \<not> HelloMessageHandler_can_handle
       \<lparr>type = HELLO, content = ''Hello back! Received: send'',
        metadata = Some [''original_message'' \<mapsto> PyStr ''send'',
                         ''is_response'' \<mapsto> PyBool True]\<rparr>
   \<and> returned (CryptoTransferHandler_handle ok_handler crypto_message) =
     [\<lparr>type = TRANSFER, content = ''Transfer successful'',
       metadata = Some [''tx_hash'' \<mapsto> PyStr ''0xabc'',
                        ''source_address'' \<mapsto> PyStr ''0xS'',
                        ''target_address'' \<mapsto> PyStr default_target_address]\<rparr>]
   \<and> \<not> CryptoTransferHandler_can_handle
       \<lparr>type = TRANSFER, content = ''Transfer successful'',
        metadata = Some [''tx_hash'' \<mapsto> PyStr ''0xabc'',
                         ''source_address'' \<mapsto> PyStr ''0xS'',
                         ''target_address'' \<mapsto> PyStr default_target_address]\<rparr>"
proof -
  have h: "returned (HelloMessageHandler_handle crypto_message) =
     [\<lparr>type = HELLO, content = ''Hello back! Received: send'',
       metadata = Some [''original_message'' \<mapsto> PyStr ''send'',
                        ''is_response'' \<mapsto> PyBool True]\<rparr>]"
    by (simp add: hello_response crypto_message_def)
  have c: "returned (CryptoTransferHandler_handle ok_handler crypto_message) =
     [\<lparr>type = TRANSFER, content = ''Transfer successful'',
       metadata = Some [''tx_hash'' \<mapsto> PyStr ''0xabc'',
                        ''source_address'' \<mapsto> PyStr ''0xS'',
                        ''target_address'' \<mapsto> PyStr default_target_address]\<rparr>]"
    by (simp add: ok_handler_run returned_def)
  from C2_no_self_loop [of crypto_message ok_handler] show ?thesis
    unfolding h c by simp
qed

subsection \<open>Overlap of the two predicates\<close>

text \<open>
  C3. The predicates of the two handlers can overlap. Both hold for a Message exactly
  when its content does not begin with
  \<open>Hello back!\<close> and either its type is HELLO and the lowered content contains
  \<open>crypto\<close>, or its type is CRYPTO and the lowered content contains \<open>hello\<close>, or the
  lowered content contains both; in particular they never both hold when the lowered
  content contains neither \<open>hello\<close> nor \<open>crypto\<close>.
\<close>

theorem C3_overlap_characterised:
  "(HelloMessageHandler_can_handle m \<and> CryptoTransferHandler_can_handle m \<longleftrightarrow>
      \<not> startswith (content m) ''Hello back!''
      \<and> ((type m = HELLO \<and> str_in ''crypto'' (str_lower (content m)))
         \<or> (type m = CRYPTO \<and> str_in ''hello'' (str_lower (content m)))
         \<or> (str_in ''hello'' (str_lower (content m))
            \<and> str_in ''crypto'' (str_lower (content m)))))
   \<and> (\<not> str_in ''hello'' (str_lower (content m))
      \<and> \<not> str_in ''crypto'' (str_lower (content m))
      \<longrightarrow> \<not> (HelloMessageHandler_can_handle m \<and> CryptoTransferHandler_can_handle m))"
  by (auto simp: HelloMessageHandler_can_handle_def CryptoTransferHandler_can_handle_def)

theorem C3_overlap_characterised_witness:
  "\<not> str_in ''hello'' (str_lower (content \<lparr>type = HELLO, content = ''good day'', metadata = None\<rparr>))
   \<and> \<not> str_in ''crypto'' (str_lower (content \<lparr>type = HELLO, content = ''good day'', metadata = None\<rparr>))
   \<and> HelloMessageHandler_can_handle \<lparr>type = HELLO, content = ''good day'', metadata = None\<rparr>
   \<and> \<not> CryptoTransferHandler_can_handle \<lparr>type = HELLO, content = ''good day'', metadata = None\<rparr>"
proof -
  have n: "\<not> str_in ''hello'' (str_lower (content \<lparr>type = HELLO, content = ''good day'', metadata = None\<rparr>))
   \<and> \<not> str_in ''crypto'' (str_lower (content \<lparr>type = HELLO, content = ''good day'', metadata = None\<rparr>))"
    by (simp add: str_lower_def char_lower_def ascii_lower_table_def)
  have h: "HelloMessageHandler_can_handle \<lparr>type = HELLO, content = ''good day'', metadata = None\<rparr>"
    by (simp add: HelloMessageHandler_can_handle_def)
  from n h C3_overlap_characterised [of "\<lparr>type = HELLO, content = ''good day'', metadata = None\<rparr>"]
  show ?thesis by blast
qed

text \<open>
  The Message that \<open>RandomMessageBehavior.execute\<close> returns when it draws the words at
  positions 0 and 5 is accepted by both handlers.
\<close>

theorem C3_overlap_counterexample:
  "RandomMessageBehavior_execute 0 5 =
     [\<lparr>type = RANDOM, content = ''hello crypto'', metadata = None\<rparr>]
   \<and> HelloMessageHandler_can_handle
       \<lparr>type = RANDOM, content = ''hello crypto'', metadata = None\<rparr>
   \<and> CryptoTransferHandler_can_handle
       \<lparr>type = RANDOM, content = ''hello crypto'', metadata = None\<rparr>"
  by (simp add: RandomMessageBehavior_execute_def random_sample_2_def WORDS_def
      HelloMessageHandler_can_handle_def CryptoTransferHandler_can_handle_def
      str_lower_def char_lower_def ascii_lower_table_def)

subsection \<open>The Hello predicate\<close>

text \<open>
  C4. \<open>HelloMessageHandler.can_handle\<close> holds exactly when the type is HELLO or the
  lowered content contains \<open>hello\<close>, and the content does not begin with the exact
  string \<open>Hello back!\<close>. The substring test ignores case: it holds exactly when the
  content contains some string whose lowering is \<open>hello\<close>. The exclusion applies to
  a Message of type HELLO too.
\<close>

theorem C4_hello_predicate:
  "(HelloMessageHandler_can_handle m \<longleftrightarrow> hello_predicate_spec m)
   \<and> (HelloMessageHandler_can_handle m \<longleftrightarrow>
        (type m = HELLO \<or> (\<exists>x. str_lower x = ''hello'' \<and> str_in x (content m)))
        \<and> \<not> startswith (content m) ''Hello back!'')
   \<and> (type m = HELLO \<and> startswith (content m) ''Hello back!''
        \<longrightarrow> \<not> HelloMessageHandler_can_handle m)"
proof -
  have a: "HelloMessageHandler_can_handle m \<longleftrightarrow> hello_predicate_spec m"
    by (rule hello_can_handle_spec)
  have b: "HelloMessageHandler_can_handle m \<longleftrightarrow>
        (type m = HELLO \<or> (\<exists>x. str_lower x = ''hello'' \<and> str_in x (content m)))
        \<and> \<not> startswith (content m) ''Hello back!''"
    unfolding HelloMessageHandler_can_handle_def lowered_substring ..
  have c: "type m = HELLO \<and> startswith (content m) ''Hello back!''
        \<longrightarrow> \<not> HelloMessageHandler_can_handle m"
    by (simp add: HelloMessageHandler_can_handle_def)
  from a b c show ?thesis by blast
qed

theorem C4_hello_predicate_witness:
  "HelloMessageHandler_can_handle \<lparr>type = RANDOM, content = ''Oh HeLLo you'', metadata = None\<rparr>
   \<and> hello_predicate_spec \<lparr>type = RANDOM, content = ''Oh HeLLo you'', metadata = None\<rparr>
   \<and> type \<lparr>type = HELLO, content = ''Hello back! hi'', metadata = None\<rparr> = HELLO
   \<and> startswith (content \<lparr>type = HELLO, content = ''Hello back! hi'', metadata = None\<rparr>)
        ''Hello back!''
   \<and> \<not> HelloMessageHandler_can_handle \<lparr>type = HELLO, content = ''Hello back! hi'', metadata = None\<rparr>"
proof -
  have h: "HelloMessageHandler_can_handle
             \<lparr>type = RANDOM, content = ''Oh HeLLo you'', metadata = None\<rparr>"
    by (simp add: HelloMessageHandler_can_handle_def str_lower_def char_lower_def
        ascii_lower_table_def)
  have p: "type \<lparr>type = HELLO, content = ''Hello back! hi'', metadata = None\<rparr> = HELLO
     \<and> startswith (content \<lparr>type = HELLO, content = ''Hello back! hi'', metadata = None\<rparr>)
          ''Hello back!''"
    by simp
  from h p
    C4_hello_predicate [of "\<lparr>type = RANDOM, content = ''Oh HeLLo you'', metadata = None\<rparr>"]
    C4_hello_predicate [of "\<lparr>type = HELLO, content = ''Hello back! hi'', metadata = None\<rparr>"]
  show ?thesis by blast
qed

subsection \<open>Failure containment\<close>

lemma execute_try_raises:
  assumes "contract_raises_Exception_only (ERC20BalanceChecker.token_contract chk)"
    and "web3_raises_Exception_only (ERC20BalanceChecker.web3 chk)"
    and "fst (ERC20BalanceChecker_execute_try chk) = Inl e"
  shows "is_Exception e"
proof (cases "balanceOf (ERC20BalanceChecker.token_contract chk) (address chk)")
  case (Inl e')
  with assms(3) have "e' = e"
    by (simp add: ERC20BalanceChecker_execute_try_def fst_bind)
  with Inl assms(1) show ?thesis
    by (auto simp: contract_raises_Exception_only_def)
next
  case (Inr b)
  with assms(3) have "from_wei_ether (ERC20BalanceChecker.web3 chk) b = Inl e"
    by (simp add: ERC20BalanceChecker_execute_try_def fst_bind split: sum.splits)
  with assms(2) show ?thesis
    by (auto simp: web3_raises_Exception_only_def)
qed

lemma handle_try_raises:
  assumes tc: "contract_raises_Exception_only (CryptoTransferHandler.token_contract self)"
    and w: "web3_raises_Exception_only (CryptoTransferHandler.web3 self)"
    and r: "fst (CryptoTransferHandler_handle_try self m) = Inl e"
  shows "is_Exception e"
proof -
  from tc have c1: "\<And>a x. balanceOf (CryptoTransferHandler.token_contract self) a = Inl x
      \<Longrightarrow> is_Exception x"
    and c2: "\<And>t n x. transfer (CryptoTransferHandler.token_contract self) t n = Inl x
      \<Longrightarrow> is_Exception x"
    and c3: "\<And>t n p x. build_transaction (CryptoTransferHandler.token_contract self) t n p = Inl x
      \<Longrightarrow> is_Exception x"
    by (auto simp: contract_raises_Exception_only_def)
  from w have w1: "\<And>a x. get_transaction_count (CryptoTransferHandler.web3 self) a = Inl x
      \<Longrightarrow> is_Exception x"
    and w2: "\<And>x. gas_price (CryptoTransferHandler.web3 self) = Inl x \<Longrightarrow> is_Exception x"
    and w3: "\<And>t k x. sign_transaction (CryptoTransferHandler.web3 self) t k = Inl x
      \<Longrightarrow> is_Exception x"
    and w4: "\<And>t x. rawTransaction (CryptoTransferHandler.web3 self) t = Inl x
      \<Longrightarrow> is_Exception x"
    and w5: "\<And>t x. send_raw_transaction (CryptoTransferHandler.web3 self) t = Inl x
      \<Longrightarrow> is_Exception x"
    by (auto simp: web3_raises_Exception_only_def)
  from r show ?thesis
    by (auto simp: CryptoTransferHandler_handle_try_def metadata_get_def fst_bind Let_def
        split: option.splits sum.splits if_splits
        dest: c1 c2 c3 w1 w2 w3 w4 w5)
qed

text \<open>
  C5. Failure containment. When the client raises instances of \<open>Exception\<close> only,
  \<open>ERC20BalanceChecker.execute\<close> and \<open>CryptoTransferHandler.handle\<close> return and never
  propagate an exception. When the \<open>try\<close> block raises an instance of \<open>Exception\<close>
  (as when the balance query does), the call logs the error and returns the empty list.
  An exception that is not an instance of \<open>Exception\<close> is not caught: the call ends
  with it, and nothing more is logged.
\<close>

theorem C5_exception_containment:
  "(contract_raises_Exception_only (ERC20BalanceChecker.token_contract chk)
      \<and> web3_raises_Exception_only (ERC20BalanceChecker.web3 chk)
      \<longrightarrow> (\<exists>ms. fst (ERC20BalanceChecker_execute chk) = Inr ms))
   \<and> (\<forall>e. fst (ERC20BalanceChecker_execute_try chk) = Inl e \<and> is_Exception e \<longrightarrow>
         ERC20BalanceChecker_execute chk =
           (Inr [], snd (ERC20BalanceChecker_execute_try chk)
                    @ [Log_error (''Error checking balance: '' @ exn_str e)]))
   \<and> (\<forall>e. fst (ERC20BalanceChecker_execute_try chk) = Inl e \<and> \<not> is_Exception e \<longrightarrow>
         ERC20BalanceChecker_execute chk = ERC20BalanceChecker_execute_try chk)
   \<and> (\<forall>e. balanceOf (ERC20BalanceChecker.token_contract chk) (address chk) = Inl e
         \<and> is_Exception e \<longrightarrow>
         ERC20BalanceChecker_execute chk =
           (Inr [], [Client (BalanceOf (address chk)),
                     Log_error (''Error checking balance: '' @ exn_str e)]))
   \<and> (contract_raises_Exception_only (CryptoTransferHandler.token_contract self)
      \<and> web3_raises_Exception_only (CryptoTransferHandler.web3 self)
      \<longrightarrow> (\<exists>ms. fst (CryptoTransferHandler_handle self m) = Inr ms))
   \<and> (\<forall>e. fst (CryptoTransferHandler_handle_try self m) = Inl e \<and> is_Exception e \<longrightarrow>
         CryptoTransferHandler_handle self m =
           (Inr [], snd (CryptoTransferHandler_handle_try self m)
                    @ [Log_error (''Error handling transfer: '' @ exn_str e)]))
   \<and> (\<forall>e. fst (CryptoTransferHandler_handle_try self m) = Inl e \<and> \<not> is_Exception e \<longrightarrow>
         CryptoTransferHandler_handle self m = CryptoTransferHandler_handle_try self m)
   \<and> (\<forall>e d. metadata m = Some d
         \<and> balanceOf (CryptoTransferHandler.token_contract self) (source_address self) = Inl e
         \<and> is_Exception e \<longrightarrow>
         CryptoTransferHandler_handle self m =
           (Inr [], [Client (BalanceOf (source_address self)),
                     Log_error (''Error handling transfer: '' @ exn_str e)]))"
proof -
  have a: "\<exists>ms. fst (ERC20BalanceChecker_execute chk) = Inr ms"
    if "contract_raises_Exception_only (ERC20BalanceChecker.token_contract chk)"
      "web3_raises_Exception_only (ERC20BalanceChecker.web3 chk)"
    unfolding ERC20BalanceChecker_execute_def
    by (rule try_except_returns) (auto simp: fst_bind intro: execute_try_raises [OF that])
  have b: "\<forall>e. fst (ERC20BalanceChecker_execute_try chk) = Inl e \<and> is_Exception e \<longrightarrow>
         ERC20BalanceChecker_execute chk =
           (Inr [], snd (ERC20BalanceChecker_execute_try chk)
                    @ [Log_error (''Error checking balance: '' @ exn_str e)])"
    by (simp add: ERC20BalanceChecker_execute_def try_except_raised fst_bind snd_bind)
  have c: "\<forall>e. fst (ERC20BalanceChecker_execute_try chk) = Inl e \<and> \<not> is_Exception e \<longrightarrow>
         ERC20BalanceChecker_execute chk = ERC20BalanceChecker_execute_try chk"
    by (simp add: ERC20BalanceChecker_execute_def try_except_propagates)
  have d: "\<forall>e. balanceOf (ERC20BalanceChecker.token_contract chk) (address chk) = Inl e
         \<and> is_Exception e \<longrightarrow>
         ERC20BalanceChecker_execute chk =
           (Inr [], [Client (BalanceOf (address chk)),
                     Log_error (''Error checking balance: '' @ exn_str e)])"
    by (simp add: ERC20BalanceChecker_execute_def ERC20BalanceChecker_execute_try_def
        try_except_def bind_def call_def emit_def return_def)
  have e: "\<exists>ms. fst (CryptoTransferHandler_handle self m) = Inr ms"
    if "contract_raises_Exception_only (CryptoTransferHandler.token_contract self)"
      "web3_raises_Exception_only (CryptoTransferHandler.web3 self)"
    unfolding CryptoTransferHandler_handle_def
    by (rule try_except_returns) (auto simp: fst_bind intro: handle_try_raises [OF that])
  have f: "\<forall>e. fst (CryptoTransferHandler_handle_try self m) = Inl e \<and> is_Exception e \<longrightarrow>
         CryptoTransferHandler_handle self m =
           (Inr [], snd (CryptoTransferHandler_handle_try self m)
                    @ [Log_error (''Error handling transfer: '' @ exn_str e)])"
    by (simp add: CryptoTransferHandler_handle_def try_except_raised fst_bind snd_bind)
  have g: "\<forall>e. fst (CryptoTransferHandler_handle_try self m) = Inl e \<and> \<not> is_Exception e \<longrightarrow>
         CryptoTransferHandler_handle self m = CryptoTransferHandler_handle_try self m"
    by (simp add: CryptoTransferHandler_handle_def try_except_propagates)
  have h: "\<forall>e d. metadata m = Some d
         \<and> balanceOf (CryptoTransferHandler.token_contract self) (source_address self) = Inl e
         \<and> is_Exception e \<longrightarrow>
         CryptoTransferHandler_handle self m =
           (Inr [], [Client (BalanceOf (source_address self)),
                     Log_error (''Error handling transfer: '' @ exn_str e)])"
    by (simp add: CryptoTransferHandler_handle_def CryptoTransferHandler_handle_try_def
        metadata_get_def try_except_def bind_def call_def emit_def return_def)
  from a b c d e f g h show ?thesis by blast
qed

lemma ok_clients_raise_Exception_only:
  "web3_raises_Exception_only ok_web3"
  "contract_raises_Exception_only ok_contract"
  "contract_raises_Exception_only down_contract"
  by (simp_all add: web3_raises_Exception_only_def contract_raises_Exception_only_def
      ok_web3_def ok_contract_def down_contract_def)

theorem C5_exception_containment_witness:
  "contract_raises_Exception_only down_contract
   \<and> web3_raises_Exception_only ok_web3
   \<and> balanceOf down_contract ''0xS'' = Inl (Exception ''ConnectionError'' ''node unreachable'')
   \<and> is_Exception (Exception ''ConnectionError'' ''node unreachable'')
   \<and> ERC20BalanceChecker_execute (ERC20BalanceChecker_init ok_web3 down_contract ''0xS'') =
       (Inr [], [Client (BalanceOf ''0xS''),
                 Log_error ''Error checking balance: node unreachable''])
   \<and> CryptoTransferHandler_handle (ok_handler\<lparr>token_contract := down_contract\<rparr>) crypto_message =
       (Inr [], [Client (BalanceOf ''0xS''),
                 Log_error ''Error handling transfer: node unreachable''])
   \<and> fst (CryptoTransferHandler_handle_try
            (ok_handler\<lparr>token_contract := interrupted_contract\<rparr>) crypto_message)
       = Inl KeyboardInterrupt
   \<and> \<not> is_Exception KeyboardInterrupt
   \<and> CryptoTransferHandler_handle (ok_handler\<lparr>token_contract := interrupted_contract\<rparr>)
         crypto_message
       = CryptoTransferHandler_handle_try (ok_handler\<lparr>token_contract := interrupted_contract\<rparr>)
           crypto_message"
proof -
  have down: "balanceOf down_contract ''0xS'' =
      Inl (Exception ''ConnectionError'' ''node unreachable'')"
    by (simp add: down_contract_def)
  have md: "metadata crypto_message = Some Map.empty"
    by (simp add: crypto_message_def)
  have int: "fst (CryptoTransferHandler_handle_try
            (ok_handler\<lparr>token_contract := interrupted_contract\<rparr>) crypto_message)
       = Inl KeyboardInterrupt"
    by (simp add: CryptoTransferHandler_handle_try_def metadata_get_def fst_bind
        crypto_message_def interrupted_contract_def)
  have res: "ERC20BalanceChecker_execute (ERC20BalanceChecker_init ok_web3 down_contract ''0xS'') =
       (Inr [], [Client (BalanceOf ''0xS''),
                 Log_error ''Error checking balance: node unreachable''])
   \<and> CryptoTransferHandler_handle (ok_handler\<lparr>token_contract := down_contract\<rparr>) crypto_message =
       (Inr [], [Client (BalanceOf ''0xS''),
                 Log_error ''Error handling transfer: node unreachable''])"
    using C5_exception_containment
      [of "ERC20BalanceChecker_init ok_web3 down_contract ''0xS''"
          "ok_handler\<lparr>token_contract := down_contract\<rparr>" crypto_message]
      down md
    by (simp add: ERC20BalanceChecker_init_def)
  have thru: "CryptoTransferHandler_handle (ok_handler\<lparr>token_contract := interrupted_contract\<rparr>)
         crypto_message
       = CryptoTransferHandler_handle_try (ok_handler\<lparr>token_contract := interrupted_contract\<rparr>)
           crypto_message"
    using C5_exception_containment
      [of "ERC20BalanceChecker_init ok_web3 down_contract ''0xS''"
          "ok_handler\<lparr>token_contract := interrupted_contract\<rparr>" crypto_message]
      int
    by simp
  from ok_clients_raise_Exception_only down res int thru show ?thesis by simp
qed

text \<open>
  A balance query that is interrupted from the keyboard: both calls end with the
  \<open>KeyboardInterrupt\<close>, after the query and with nothing logged.
\<close>

theorem C5_propagation_counterexample:
  "ERC20BalanceChecker_execute (ERC20BalanceChecker_init ok_web3 interrupted_contract ''0xS'') =
     (Inl KeyboardInterrupt, [Client (BalanceOf ''0xS'')])
   \<and> CryptoTransferHandler_handle (ok_handler\<lparr>token_contract := interrupted_contract\<rparr>)
       crypto_message =
     (Inl KeyboardInterrupt, [Client (BalanceOf ''0xS'')])"
  by (simp add: ERC20BalanceChecker_execute_def ERC20BalanceChecker_execute_try_def
      ERC20BalanceChecker_init_def CryptoTransferHandler_handle_def
      CryptoTransferHandler_handle_try_def metadata_get_def try_except_def bind_def call_def
      emit_def return_def crypto_message_def interrupted_contract_def)

subsection \<open>Wiring in \<open>main\<close>\<close>

lemma setup_agent_fields:
  "setup_agent env n w tc r = (a, r') \<Longrightarrow>
     name a = n \<and> inbox a = r \<and> Agent.outbox a = r + 1 \<and> r' = r + 2"
  by (auto simp: setup_agent_def Agent_init_def register_handler_def register_behavior_def)

lemma events_did [simp]: "events (did ev s) = events s @ [ev]"
  "agent1 (did ev s) = agent1 s" "agent2 (did ev s) = agent2 s"
  by (simp_all add: did_def)

lemma stop_agents_events:
  "events (stop_agents s) = events s
     @ (case agent1 s of None \<Rightarrow> [] | Some a \<Rightarrow> [Stop_invoked (name a)])
     @ (case agent2 s of None \<Rightarrow> [] | Some a \<Rightarrow> [Stop_invoked (name a)])"
  "agent1 (stop_agents s) = agent1 s" "agent2 (stop_agents s) = agent2 s"
  by (simp_all add: stop_agents_def Let_def split: option.splits)

lemma main_try_setup_failed:
  "main_setup env = Inl e \<Longrightarrow> main_try env s = (Some e, s)"
  by (auto simp: main_setup_def main_try_def split: sum.splits)

lemma main_try_setup_ok:
  assumes "main_setup env = Inr (w, tc)"
  shows "\<exists>a1 a2. main_try env \<lparr>agent1 = None, agent2 = None, events = [], propagated = None\<rparr> =
     (gather_result env,
      \<lparr>agent1 = Some a1, agent2 = Some a2,
       events = [Constructed ''Agent1'', Constructed ''Agent2'',
                 Outbox_assigned ''Agent1'' 2, Outbox_assigned ''Agent2'' 0,
                 Run_invoked ''Agent1'', Run_invoked ''Agent2''],
       propagated = None\<rparr>)
     \<and> name a1 = ''Agent1'' \<and> name a2 = ''Agent2''
     \<and> inbox a1 = 0 \<and> inbox a2 = 2 \<and> Agent.outbox a1 = 2 \<and> Agent.outbox a2 = 0"
proof -
  from assms have r: "setup_web3_result env = Inr w" "token_abi_result env = Inr ()"
    "contract_result env = Inr tc"
    by (auto simp: main_setup_def split: sum.splits)
  obtain a1 r1 where s1: "setup_agent env ''Agent1'' w tc 0 = (a1, r1)"
    by (cases "setup_agent env ''Agent1'' w tc 0")
  obtain a2 r2 where s2: "setup_agent env ''Agent2'' w tc r1 = (a2, r2)"
    by (cases "setup_agent env ''Agent2'' w tc r1")
  from setup_agent_fields [OF s1] have f1: "name a1 = ''Agent1''" "inbox a1 = 0" "r1 = 2"
    by simp_all
  from setup_agent_fields [OF s2] f1 have f2: "name a2 = ''Agent2''" "inbox a2 = 2"
    by simp_all
  have "main_try env \<lparr>agent1 = None, agent2 = None, events = [], propagated = None\<rparr> =
     (gather_result env,
      \<lparr>agent1 = Some (a1\<lparr>outbox := 2\<rparr>), agent2 = Some (a2\<lparr>outbox := 0\<rparr>),
       events = [Constructed ''Agent1'', Constructed ''Agent2'',
                 Outbox_assigned ''Agent1'' 2, Outbox_assigned ''Agent2'' 0,
                 Run_invoked ''Agent1'', Run_invoked ''Agent2''],
       propagated = None\<rparr>)"
    using r s1 s2 f1 f2 by (simp add: main_try_def did_def)
  with f1 f2 show ?thesis by auto
qed

text \<open>
  C6. In \<open>main\<close>, when the set-up fails no agent is created, wired or run. When it
  succeeds, \<open>main\<close> creates the two agents, then assigns \<open>agent1.outbox = agent2.inbox\<close>
  and \<open>agent2.outbox = agent1.inbox\<close>, then invokes \<open>run\<close> on both, in this order and
  with nothing in between; nothing that follows wires or starts an agent, and the two
  outboxes still are the other agent's inbox at the end.
\<close>

theorem C6_wiring:
  "(\<forall>e. main_setup env = Inl e \<longrightarrow>
       agent1 (main env) = None \<and> agent2 (main env) = None
       \<and> \<not> (\<exists>ev \<in> set (events (main env)). wires_or_runs ev))
   \<and> (\<forall>w tc. main_setup env = Inr (w, tc) \<longrightarrow>
       (\<exists>a1 a2 tail.
          agent1 (main env) = Some a1 \<and> agent2 (main env) = Some a2
          \<and> Agent.outbox a1 = inbox a2 \<and> Agent.outbox a2 = inbox a1 \<and> inbox a1 \<noteq> inbox a2
          \<and> events (main env) =
              [Constructed (name a1), Constructed (name a2),
               Outbox_assigned (name a1) (inbox a2), Outbox_assigned (name a2) (inbox a1),
               Run_invoked (name a1), Run_invoked (name a2)] @ tail
          \<and> \<not> (\<exists>ev \<in> set tail. wires_or_runs ev)))"
proof -
  have failed: "agent1 (main env) = None \<and> agent2 (main env) = None
       \<and> \<not> (\<exists>ev \<in> set (events (main env)). wires_or_runs ev)"
    if "main_setup env = Inl e" for e
    using main_try_setup_failed [OF that, of "\<lparr>agent1 = None, agent2 = None, events = [], propagated = None\<rparr>"]
    by (cases e) (simp_all add: main_def stop_agents_events)
  have ok: "\<exists>a1 a2 tail.
          agent1 (main env) = Some a1 \<and> agent2 (main env) = Some a2
          \<and> Agent.outbox a1 = inbox a2 \<and> Agent.outbox a2 = inbox a1 \<and> inbox a1 \<noteq> inbox a2
          \<and> events (main env) =
              [Constructed (name a1), Constructed (name a2),
               Outbox_assigned (name a1) (inbox a2), Outbox_assigned (name a2) (inbox a1),
               Run_invoked (name a1), Run_invoked (name a2)] @ tail
          \<and> \<not> (\<exists>ev \<in> set tail. wires_or_runs ev)"
    if "main_setup env = Inr (w, tc)" for w tc
  proof -
    from main_try_setup_ok [OF that] obtain a1 a2 where
      t: "main_try env \<lparr>agent1 = None, agent2 = None, events = [], propagated = None\<rparr> =
           (gather_result env,
            \<lparr>agent1 = Some a1, agent2 = Some a2,
             events = [Constructed ''Agent1'', Constructed ''Agent2'',
                       Outbox_assigned ''Agent1'' 2, Outbox_assigned ''Agent2'' 0,
                       Run_invoked ''Agent1'', Run_invoked ''Agent2''],
       propagated = None\<rparr>)"
      and f: "name a1 = ''Agent1''" "name a2 = ''Agent2''" "inbox a1 = 0" "inbox a2 = 2"
        "Agent.outbox a1 = 2" "Agent.outbox a2 = 0"
      by blast
    let ?six = "[Constructed ''Agent1'', Constructed ''Agent2'',
                 Outbox_assigned ''Agent1'' 2, Outbox_assigned ''Agent2'' 0,
                 Run_invoked ''Agent1'', Run_invoked ''Agent2'']"
    have "\<exists>tail. agent1 (main env) = Some a1 \<and> agent2 (main env) = Some a2
        \<and> events (main env) = ?six @ tail \<and> \<not> (\<exists>ev \<in> set tail. wires_or_runs ev)"
    proof (cases "gather_result env")
      case None
      with t show ?thesis by (simp add: main_def)
    next
      case (Some x)
      with t f show ?thesis
        by (cases x) (simp_all add: main_def stop_agents_events)
    qed
    then obtain tail where "agent1 (main env) = Some a1" "agent2 (main env) = Some a2"
      "events (main env) = ?six @ tail" "\<not> (\<exists>ev \<in> set tail. wires_or_runs ev)"
      by blast
    with f show ?thesis by (intro exI [of _ a1] exI [of _ a2] exI [of _ tail]) simp
  qed
  from failed ok show ?thesis by blast
qed

theorem C6_wiring_witness:
  "main_setup ok_env = Inr (ok_web3, ok_contract)
   \<and> events (main ok_env) =
       [Constructed ''Agent1'', Constructed ''Agent2'',
        Outbox_assigned ''Agent1'' 2, Outbox_assigned ''Agent2'' 0,
        Run_invoked ''Agent1'', Run_invoked ''Agent2'',
        Printed (CHR 0x0A # ''Shutting down agents...''),
        Stop_invoked ''Agent1'', Stop_invoked ''Agent2'']
   \<and> map_option inbox (agent1 (main ok_env)) = Some 0
   \<and> map_option Agent.outbox (agent1 (main ok_env)) = Some 2
   \<and> map_option inbox (agent2 (main ok_env)) = Some 2
   \<and> map_option Agent.outbox (agent2 (main ok_env)) = Some 0
   \<and> main_setup (ok_env\<lparr>setup_web3_result :=
          Inl (Exception ''ConnectionError'' ''Failed to connect to the Ethereum node'')\<rparr>)
       = Inl (Exception ''ConnectionError'' ''Failed to connect to the Ethereum node'')
   \<and> events (main (ok_env\<lparr>setup_web3_result :=
          Inl (Exception ''ConnectionError'' ''Failed to connect to the Ethereum node'')\<rparr>))
       = [Printed ''An error occurred: Failed to connect to the Ethereum node'']"
proof -
  have s: "main_setup ok_env = Inr (ok_web3, ok_contract)"
    by (simp add: main_setup_def ok_env_def)
  have ev: "events (main ok_env) =
       [Constructed ''Agent1'', Constructed ''Agent2'',
        Outbox_assigned ''Agent1'' 2, Outbox_assigned ''Agent2'' 0,
        Run_invoked ''Agent1'', Run_invoked ''Agent2'',
        Printed (CHR 0x0A # ''Shutting down agents...''),
        Stop_invoked ''Agent1'', Stop_invoked ''Agent2'']"
    by (simp add: main_def main_try_def ok_env_def setup_agent_def Agent_init_def
        register_handler_def register_behavior_def did_def stop_agents_def)
  have ag: "map_option inbox (agent1 (main ok_env)) = Some 0
   \<and> map_option Agent.outbox (agent1 (main ok_env)) = Some 2
   \<and> map_option inbox (agent2 (main ok_env)) = Some 2
   \<and> map_option Agent.outbox (agent2 (main ok_env)) = Some 0"
    by (simp add: main_def main_try_def ok_env_def setup_agent_def Agent_init_def
        register_handler_def register_behavior_def did_def stop_agents_def)
  let ?bad = "ok_env\<lparr>setup_web3_result :=
          Inl (Exception ''ConnectionError'' ''Failed to connect to the Ethereum node'')\<rparr>"
  have b: "main_setup ?bad
       = Inl (Exception ''ConnectionError'' ''Failed to connect to the Ethereum node'')"
    by (simp add: main_setup_def)
  have bev: "events (main ?bad)
       = [Printed ''An error occurred: Failed to connect to the Ethereum node'']"
    by (simp add: main_def main_try_def did_def stop_agents_def)
  from C6_wiring [of ok_env] C6_wiring [of ?bad] s ev ag b bev
  show ?thesis by simp
qed

subsection \<open>FIFO per producer\<close>

lemma run_bus_conserves:
  "run_bus bus ops = (out, rest) \<Longrightarrow> out @ rest = bus @ puts_of ops"
proof (induction bus ops arbitrary: out rest rule: run_bus.induct)
  case (1 bus)
  then show ?case by simp
next
  case (2 bus p message ops)
  then show ?case by (simp add: put_def)
next
  case (3 bus ops)
  show ?case
  proof (cases bus)
    case Nil
    with 3 show ?thesis by (simp add: get_def)
  next
    case (Cons x bus')
    obtain out' rest' where r: "run_bus bus' ops = (out', rest')"
      by (cases "run_bus bus' ops")
    with 3(3) Cons have "out = x # out'" "rest = rest'"
      by (simp_all add: get_def)
    moreover from "3.IH"(2) [of "(x, bus')" x bus' out' rest'] Cons r
    have "out' @ rest' = bus' @ puts_of ops"
      by (simp add: get_def)
    ultimately show ?thesis using Cons by simp
  qed
qed

lemma from_producer_append:
  "from_producer p (xs @ ys) = from_producer p xs @ from_producer p ys"
  by (simp add: from_producer_def)

text \<open>
  C7. FIFO per producer: in every schedule of \<open>put\<close>s (by any number of producers) and
  \<open>get\<close>s on a bus that starts empty, the Messages of one producer that the consumer
  received, followed by those of that producer still on the bus, are the Messages that
  producer put, in the order it put them. So what the consumer received from a producer
  is a prefix of what the producer put, and all of it once the bus is drained.
\<close>

theorem C7_fifo_per_producer:
  assumes "run_bus [] ops = (out, rest)"
  shows "from_producer p out @ from_producer p rest = from_producer p (puts_of ops)
     \<and> prefix (from_producer p out) (from_producer p (puts_of ops))
     \<and> (rest = [] \<longrightarrow> from_producer p out = from_producer p (puts_of ops))"
proof -
  from run_bus_conserves [OF assms] have "out @ rest = puts_of ops" by simp
  then have "from_producer p (out @ rest) = from_producer p (puts_of ops)" by simp
  then have eq: "from_producer p out @ from_producer p rest = from_producer p (puts_of ops)"
    by (simp add: from_producer_append)
  then have "prefix (from_producer p out) (from_producer p (puts_of ops))"
    by (metis prefixI)
  with eq show ?thesis by (auto simp: from_producer_def)
qed

theorem C7_fifo_per_producer_witness:
  "run_bus [] [Put 1 ''A'', Put 2 ''X'', Put 1 ''B'', Get, Put 1 ''C'', Get, Get, Put 2 ''Y'', Get] =
     ([(1, ''A''), (2, ''X''), (1, ''B''), (1, ''C'')], [(2, ''Y'')])
   \<and> from_producer 1 (puts_of [Put 1 ''A'', Put 2 ''X'', Put 1 ''B'', Get, Put 1 ''C'', Get, Get,
                                Put 2 ''Y'', Get]) = [''A'', ''B'', ''C'']
   \<and> from_producer 1 [(1, ''A''), (2, ''X''), (1, ''B''), (1, ''C'')] = [''A'', ''B'', ''C'']
   \<and> prefix (from_producer 1 [(1, ''A''), (2, ''X''), (1, ''B''), (1, ''C'')])
        (from_producer 1 (puts_of [Put 1 ''A'', Put 2 ''X'', Put 1 ''B'', Get, Put 1 ''C'', Get, Get,
                                   Put 2 ''Y'', Get]))"
proof -
  have r: "run_bus [] [Put 1 ''A'', Put 2 ''X'', Put 1 ''B'', Get, Put 1 ''C'', Get, Get,
                       Put 2 ''Y'', Get] =
     ([(1, ''A''), (2, ''X''), (1, ''B''), (1, ''C'')], [(2, ''Y'')])"
    by (simp add: put_def get_def)
  have f: "from_producer 1 [(1, ''A''), (2, ''X''), (1, ''B''), (1, ''C'')] = [''A'', ''B'', ''C'']"
    by (simp add: from_producer_def)
  have p: "from_producer 1 (puts_of [Put 1 ''A'', Put 2 ''X'', Put 1 ''B'', Get, Put 1 ''C'', Get, Get,
                                Put 2 ''Y'', Get]) = [''A'', ''B'', ''C'']"
    by (simp add: from_producer_def)
  from C7_fifo_per_producer [OF r, of 1]
  have pre: "prefix (from_producer 1 [(1, ''A''), (2, ''X''), (1, ''B''), (1, ''C'')])
        (from_producer 1 (puts_of [Put 1 ''A'', Put 2 ''X'', Put 1 ''B'', Get, Put 1 ''C'', Get, Get,
                                   Put 2 ''Y'', Get]))"
    by (rule conjunct2 [THEN conjunct1])
  from r p f pre show ?thesis by (intro conjI)
qed

subsection \<open>RandomMessageBehavior\<close>

lemma distinct_WORDS: "distinct WORDS"
  by (simp add: WORDS_def)

lemma WORDS_no_space: "\<forall>w \<in> set WORDS. CHR '' '' \<notin> set w"
  by (simp add: WORDS_def)

text \<open>
  C8. \<open>RandomMessageBehavior\<close> is constructed with the interval 2.0 seconds, the corpus
  has ten words, and for every pair of positions that \<open>random.sample\<close> can draw,
  \<open>execute\<close> returns exactly one Message of type RANDOM whose content is two different
  words of the corpus with one space between them (no word contains a space).
\<close>

theorem C8_random_message:
  "interval (RandomMessageBehavior_init ob) = 2
   \<and> length WORDS = 10
   \<and> (sample_choice WORDS i j \<longrightarrow>
        (\<exists>w1 w2. RandomMessageBehavior_execute i j =
                    [\<lparr>type = RANDOM, content = w1 @ '' '' @ w2, metadata = None\<rparr>]
           \<and> w1 \<in> set WORDS \<and> w2 \<in> set WORDS \<and> w1 \<noteq> w2
           \<and> CHR '' '' \<notin> set w1 \<and> CHR '' '' \<notin> set w2))"
proof -
  have a: "interval (RandomMessageBehavior_init ob) = 2"
    by (simp add: RandomMessageBehavior_init_def)
  have b: "length WORDS = 10"
    by (simp add: WORDS_def)
  have c: "\<exists>w1 w2. RandomMessageBehavior_execute i j =
                    [\<lparr>type = RANDOM, content = w1 @ '' '' @ w2, metadata = None\<rparr>]
           \<and> w1 \<in> set WORDS \<and> w2 \<in> set WORDS \<and> w1 \<noteq> w2
           \<and> CHR '' '' \<notin> set w1 \<and> CHR '' '' \<notin> set w2"
    if ch: "sample_choice WORDS i j"
  proof -
    from ch have ij: "i < length WORDS" "j < length WORDS" "i \<noteq> j"
      by (simp_all add: sample_choice_def)
    have ex: "RandomMessageBehavior_execute i j =
        [\<lparr>type = RANDOM, content = (WORDS ! i) @ '' '' @ (WORDS ! j), metadata = None\<rparr>]"
      by (simp add: RandomMessageBehavior_execute_def random_sample_2_def)
    from ij have mem: "WORDS ! i \<in> set WORDS" "WORDS ! j \<in> set WORDS"
      by simp_all
    from ij distinct_WORDS have ne: "WORDS ! i \<noteq> WORDS ! j"
      by (simp add: nth_eq_iff_index_eq)
    from mem WORDS_no_space have sp: "CHR '' '' \<notin> set (WORDS ! i)" "CHR '' '' \<notin> set (WORDS ! j)"
      by blast+
    from ex mem ne sp show ?thesis by blast
  qed
  from a b c show ?thesis by blast
qed

theorem C8_random_message_witness:
  "sample_choice WORDS 0 5
   \<and> RandomMessageBehavior_execute 0 5 =
       [\<lparr>type = RANDOM, content = ''hello crypto'', metadata = None\<rparr>]
   \<and> interval (RandomMessageBehavior_init 0) = 2"
proof -
  have ch: "sample_choice WORDS 0 5"
    by (simp add: sample_choice_def WORDS_def)
  have ex: "RandomMessageBehavior_execute 0 5 =
       [\<lparr>type = RANDOM, content = ''hello crypto'', metadata = None\<rparr>]"
    by (simp add: RandomMessageBehavior_execute_def random_sample_2_def WORDS_def)
  from ch ex C8_random_message [of 0 0 5] show ?thesis by blast
qed

subsection \<open>The transfer\<close>

text \<open>
  C9. When the metadata of the Message is a mapping without the key
  \<open>target_address\<close>, the queried balance is at least one ether in wei and every call
  to the client succeeds, \<open>handle\<close> asks the client to transfer \<open>10^18\<close> units of the
  token to the fixed address \<open>0x0123456789012345678901234567890123456789\<close> and returns
  one TRANSFER Message whose metadata maps \<open>target_address\<close> to that address. (This
  holds for every such Message, matched by \<open>can_handle\<close> or not.)
\<close>

theorem C9_default_target:
  assumes md: "metadata m = Some d" "d ''target_address'' = None"
    and bal: "balanceOf (CryptoTransferHandler.token_contract self) (source_address self) = Inr b"
      "to_wei_1_ether \<le> b"
    and nonce: "get_transaction_count (CryptoTransferHandler.web3 self) (source_address self)
                  = Inr nonce"
    and tr: "transfer (CryptoTransferHandler.token_contract self)
               (PyStr default_target_address) to_wei_1_ether = Inr ()"
    and gp: "gas_price (CryptoTransferHandler.web3 self) = Inr gasPrice"
    and params: "params = \<lparr>tx_from = source_address self, tx_gas = 100000,
                            tx_gasPrice = gasPrice, tx_nonce = nonce\<rparr>"
    and build: "build_transaction (CryptoTransferHandler.token_contract self)
                  (PyStr default_target_address) to_wei_1_ether params = Inr txn"
    and sign: "sign_transaction (CryptoTransferHandler.web3 self) txn (private_key self)
                 = Inr signed"
    and raw: "rawTransaction (CryptoTransferHandler.web3 self) signed = Inr raw"
    and send: "send_raw_transaction (CryptoTransferHandler.web3 self) raw = Inr tx_hash"
  shows "CryptoTransferHandler_handle self m =
     (Inr [\<lparr>type = TRANSFER, content = ''Transfer successful'',
            metadata = Some [''tx_hash'' \<mapsto> PyStr tx_hash,
                             ''source_address'' \<mapsto> PyStr (source_address self),
                             ''target_address'' \<mapsto> PyStr default_target_address]\<rparr>],
      [Client (BalanceOf (source_address self)),
       Client (GetTransactionCount (source_address self)),
       Client (Transfer (PyStr default_target_address) (10 ^ 18)),
       Client GasPrice,
       Client (BuildTransaction (PyStr default_target_address) (10 ^ 18) params),
       Client (SignTransaction txn (private_key self)),
       Client (RawTransaction signed),
       Client (SendRawTransaction raw),
       Log_info (''Transfer initiated: '' @ tx_hash)])
     \<and> default_target_address = ''0x0123456789012345678901234567890123456789''"
proof -
  have one: "to_wei_1_ether = 10 ^ 18" by (simp add: to_wei_1_ether_def)
  have nb: "\<not> b < to_wei_1_ether" using bal(2) by simp
  have "CryptoTransferHandler_handle_try self m =
     (Inr [\<lparr>type = TRANSFER, content = ''Transfer successful'',
            metadata = Some [''tx_hash'' \<mapsto> PyStr tx_hash,
                             ''source_address'' \<mapsto> PyStr (source_address self),
                             ''target_address'' \<mapsto> PyStr default_target_address]\<rparr>],
      [Client (BalanceOf (source_address self)),
       Client (GetTransactionCount (source_address self)),
       Client (Transfer (PyStr default_target_address) to_wei_1_ether),
       Client GasPrice,
       Client (BuildTransaction (PyStr default_target_address) to_wei_1_ether params),
       Client (SignTransaction txn (private_key self)),
       Client (RawTransaction signed),
       Client (SendRawTransaction raw),
       Log_info (''Transfer initiated: '' @ tx_hash)])"
    using md bal(1) nb nonce tr gp build [unfolded params] sign raw send
    by (simp add: CryptoTransferHandler_handle_try_def metadata_get_def bind_def call_def
        return_def emit_def params)
  then show ?thesis
    by (simp add: CryptoTransferHandler_handle_def try_except_def one default_target_address_def)
qed

theorem C9_default_target_witness:
  "metadata crypto_message = Some Map.empty
   \<and> (Map.empty :: string \<rightharpoonup> pyval) ''target_address'' = None
   \<and> CryptoTransferHandler_can_handle crypto_message
   \<and> balanceOf (CryptoTransferHandler.token_contract ok_handler) (source_address ok_handler)
       = Inr (2 * 10 ^ 18)
   \<and> to_wei_1_ether \<le> 2 * 10 ^ 18
   \<and> CryptoTransferHandler_handle ok_handler crypto_message =
     (Inr [\<lparr>type = TRANSFER, content = ''Transfer successful'',
            metadata = Some [''tx_hash'' \<mapsto> PyStr ''0xabc'',
                             ''source_address'' \<mapsto> PyStr ''0xS'',
                             ''target_address'' \<mapsto>
                                PyStr ''0x0123456789012345678901234567890123456789'']\<rparr>],
      [Client (BalanceOf ''0xS''),
       Client (GetTransactionCount ''0xS''),
       Client (Transfer (PyStr ''0x0123456789012345678901234567890123456789'') (10 ^ 18)),
       Client GasPrice,
       Client (BuildTransaction (PyStr ''0x0123456789012345678901234567890123456789'') (10 ^ 18)
                 \<lparr>tx_from = ''0xS'', tx_gas = 100000, tx_gasPrice = 1000000000, tx_nonce = 7\<rparr>),
       Client (SignTransaction ''txn'' ''key''),
       Client (RawTransaction ''signed:txn''),
       Client (SendRawTransaction ''raw:signed:txn''),
       Log_info ''Transfer initiated: 0xabc''])"
proof -
  have md: "metadata crypto_message = Some Map.empty"
    "(Map.empty :: string \<rightharpoonup> pyval) ''target_address'' = None"
    by (simp_all add: crypto_message_def)
  have can: "CryptoTransferHandler_can_handle crypto_message"
    by (simp add: CryptoTransferHandler_can_handle_def crypto_message_def)
  have bal: "balanceOf (CryptoTransferHandler.token_contract ok_handler) (source_address ok_handler)
       = Inr (2 * 10 ^ 18)" "to_wei_1_ether \<le> 2 * 10 ^ 18"
    by (simp_all add: ok_contract_def to_wei_1_ether_def)
  have nonce: "get_transaction_count (CryptoTransferHandler.web3 ok_handler)
                 (source_address ok_handler) = Inr 7"
    by (simp add: ok_web3_def)
  have tr: "transfer (CryptoTransferHandler.token_contract ok_handler)
               (PyStr default_target_address) to_wei_1_ether = Inr ()"
    by (simp add: ok_contract_def)
  have gp: "gas_price (CryptoTransferHandler.web3 ok_handler) = Inr 1000000000"
    by (simp add: ok_web3_def)
  have build: "build_transaction (CryptoTransferHandler.token_contract ok_handler)
                  (PyStr default_target_address) to_wei_1_ether
                  \<lparr>tx_from = source_address ok_handler, tx_gas = 100000,
                   tx_gasPrice = 1000000000, tx_nonce = 7\<rparr> = Inr ''txn''"
    by (simp add: ok_contract_def)
  have sign: "sign_transaction (CryptoTransferHandler.web3 ok_handler) ''txn''
                (private_key ok_handler) = Inr ''signed:txn''"
    by (simp add: ok_web3_def)
  have raw: "rawTransaction (CryptoTransferHandler.web3 ok_handler) ''signed:txn''
               = Inr ''raw:signed:txn''"
    by (simp add: ok_web3_def)
  have send: "send_raw_transaction (CryptoTransferHandler.web3 ok_handler) ''raw:signed:txn''
                = Inr ''0xabc''"
    by (simp add: ok_web3_def)
  from C9_default_target [OF md bal nonce tr gp refl build sign raw send] md can bal
  show ?thesis by simp
qed

text \<open>
  C10. When the queried token balance of the source address is below one ether in wei,
  \<open>handle\<close> returns the empty list and no call of the transfer path is made: with
  metadata present, the only events are the balance query and the error log.
\<close>

theorem C10_insufficient_balance:
  assumes "balanceOf (CryptoTransferHandler.token_contract self) (source_address self) = Inr b"
    and "b < to_wei_1_ether"
  shows "fst (CryptoTransferHandler_handle self m) = Inr []
     \<and> \<not> (\<exists>ev \<in> set (snd (CryptoTransferHandler_handle self m)). transfer_path ev)
     \<and> (\<forall>d. metadata m = Some d \<longrightarrow>
          snd (CryptoTransferHandler_handle self m) =
            [Client (BalanceOf (source_address self)),
             Log_error ''Insufficient balance for transfer''])"
  using assms
  by (cases "metadata m")
     (simp_all add: CryptoTransferHandler_handle_def CryptoTransferHandler_handle_try_def
        metadata_get_def bind_def call_def return_def emit_def raise_def try_except_def)

theorem C10_insufficient_balance_witness:
  "balanceOf poor_contract ''0xS'' = Inr 5
   \<and> (5 :: int) < to_wei_1_ether
   \<and> CryptoTransferHandler_can_handle crypto_message
   \<and> CryptoTransferHandler_handle (ok_handler\<lparr>token_contract := poor_contract\<rparr>) crypto_message =
       (Inr [], [Client (BalanceOf ''0xS''), Log_error ''Insufficient balance for transfer''])"
proof -
  have bal: "balanceOf (CryptoTransferHandler.token_contract
                 (ok_handler\<lparr>token_contract := poor_contract\<rparr>))
               (source_address (ok_handler\<lparr>token_contract := poor_contract\<rparr>)) = Inr 5"
    by (simp add: poor_contract_def)
  have lt: "(5 :: int) < to_wei_1_ether"
    by (simp add: to_wei_1_ether_def)
  have can: "CryptoTransferHandler_can_handle crypto_message"
    by (simp add: CryptoTransferHandler_can_handle_def crypto_message_def)
  have md: "metadata crypto_message = Some Map.empty"
    by (simp add: crypto_message_def)
  from C10_insufficient_balance [OF bal lt, of crypto_message] md
  have "CryptoTransferHandler_handle (ok_handler\<lparr>token_contract := poor_contract\<rparr>) crypto_message =
       (Inr [], [Client (BalanceOf ''0xS''), Log_error ''Insufficient balance for transfer''])"
    by (simp add: prod_eq_iff)
  with bal lt can show ?thesis by simp
qed
end
